theory Spec2Isabelle
  imports Complex_Main
begin

section \<open>Tensors and Python errors\<close>

text \<open>
  The pipeline of \<^verbatim>\<open>pytorch_wavelet_train.py\<close> works on 4-dimensional image tensors
  (batch, channel, height, width). A tensor is modelled as nested lists in this order;
  Python floats are modelled as exact reals, so rounding is outside the model.
\<close>

type_synonym plane = "real list list"
type_synonym sample = "plane list"
type_synonym tensor = "sample list"

datatype error = ShapeError | TypeError | ValueError | IndexError | ZeroDivisionError

definition is_plane :: "nat \<Rightarrow> nat \<Rightarrow> plane \<Rightarrow> bool" where
  "is_plane h w p \<longleftrightarrow> length p = h \<and> list_all (\<lambda>r. length r = w) p"

definition is_tensor :: "nat \<Rightarrow> nat \<Rightarrow> nat \<Rightarrow> nat \<Rightarrow> tensor \<Rightarrow> bool" where
  "is_tensor b c h w x \<longleftrightarrow>
     length x = b \<and> list_all (\<lambda>s. length s = c \<and> list_all (is_plane h w) s) x"

text \<open>\<^verbatim>\<open>x.size(1)\<close>, \<^verbatim>\<open>x.size(2)\<close>, \<^verbatim>\<open>x.size(3)\<close>, read off the first entries.\<close>

definition width :: "plane \<Rightarrow> nat" where
  "width p = (case p of [] \<Rightarrow> 0 | r # _ \<Rightarrow> length r)"

definition size1 :: "tensor \<Rightarrow> nat" where
  "size1 x = (case x of [] \<Rightarrow> 0 | s # _ \<Rightarrow> length s)"

definition size2 :: "tensor \<Rightarrow> nat" where
  "size2 x = (case x of (p # _) # _ \<Rightarrow> length p | _ \<Rightarrow> 0)"

definition size3 :: "tensor \<Rightarrow> nat" where
  "size3 x = (case x of ((r # _) # _) # _ \<Rightarrow> length r | _ \<Rightarrow> 0)"

definition well_shaped :: "tensor \<Rightarrow> bool" where
  "well_shaped x \<longleftrightarrow> is_tensor (length x) (size1 x) (size2 x) (size3 x) x"

definition const_tensor :: "nat \<Rightarrow> nat \<Rightarrow> nat \<Rightarrow> nat \<Rightarrow> real \<Rightarrow> tensor" where
  "const_tensor b c h w v = replicate b (replicate c (replicate h (replicate w v)))"

text \<open>\<^verbatim>\<open>t * k\<close> for a tensor and a Python number.\<close>

definition scale_tensor :: "real \<Rightarrow> tensor \<Rightarrow> tensor" where
  "scale_tensor k x = map (map (map (map (\<lambda>v. v * k)))) x"

text \<open>
  \<^verbatim>\<open>torch.cat(ts, dim=1)\<close>: the tensors are joined along the channel axis; every other
  axis has to agree, otherwise torch raises (reported here as \<open>ShapeError\<close>).
\<close>

fun cat_channels :: "tensor list \<Rightarrow> tensor" where
  "cat_channels [] = []"
| "cat_channels [t] = t"
| "cat_channels (t # ts) = map2 (@) t (cat_channels ts)"

definition same_outer :: "tensor \<Rightarrow> tensor \<Rightarrow> bool" where
  "same_outer a b \<longleftrightarrow> length a = length b \<and> size2 a = size2 b \<and> size3 a = size3 b"

definition torch_cat :: "tensor list \<Rightarrow> error + tensor" where
  "torch_cat ts =
     (case ts of
        [] \<Rightarrow> Inl ShapeError
      | t # _ \<Rightarrow> if list_all (same_outer t) ts then Inr (cat_channels ts) else Inl ShapeError)"

text \<open>
  \<^verbatim>\<open>torch.split(x, n, dim=1)\<close>: consecutive chunks of \<open>n\<close> channels, the last one
  possibly shorter; there are \<open>ceil (C / n)\<close> chunks.
\<close>

definition torch_split :: "tensor \<Rightarrow> nat \<Rightarrow> tensor list" where
  "torch_split x n =
     map (\<lambda>k. map (\<lambda>s. take n (drop (k * n) s)) x) [0..<(size1 x + n - 1) div n]"

section \<open>The Haar transform pair\<close>

text \<open>
  Modelled from the spec: \<^verbatim>\<open>HaarForward\<close> and \<^verbatim>\<open>HaarInverse\<close> of
  \<^verbatim>\<open>utils/haar_utils.py\<close> are imported by the training script but are not among the
  source files. The spec describes the forward transform as a 2D Haar transform giving
  four sub-bands of half the height and width, energy-preserving but not
  amplitude-preserving, undefined for odd sizes (a \<open>ShapeError\<close>), and the inverse as its
  exact algebraic inverse, which without a rescale halves the magnitude. That is the
  orthonormal 2D Haar transform: every 2x2 block \<open>(x00, x01, x10, x11)\<close> is sent to
  \<open>(x00 \<plusminus> x01 \<plusminus> x10 \<plusminus> x11) / 2\<close>, and back by the same formula. Both modules
  work on one tensor whose channel axis holds the four bands one after the other, which
  is how \<^verbatim>\<open>DWTHaar\<close> and \<^verbatim>\<open>IWTHaar\<close> below use them.
\<close>

definition haar_band :: "real \<Rightarrow> real \<Rightarrow> real \<Rightarrow> plane \<Rightarrow> plane" where
  "haar_band s01 s10 s11 p =
     map (\<lambda>i. map (\<lambda>j. (p ! (2 * i) ! (2 * j) + s01 * p ! (2 * i) ! (2 * j + 1)
                         + s10 * p ! (2 * i + 1) ! (2 * j)
                         + s11 * p ! (2 * i + 1) ! (2 * j + 1)) / 2)
                [0..<width p div 2])
         [0..<length p div 2]"

definition haar_ll :: "plane \<Rightarrow> plane" where "haar_ll = haar_band 1 1 1"
definition haar_lh :: "plane \<Rightarrow> plane" where "haar_lh = haar_band 1 (- 1) (- 1)"
definition haar_hl :: "plane \<Rightarrow> plane" where "haar_hl = haar_band (- 1) 1 (- 1)"
definition haar_hh :: "plane \<Rightarrow> plane" where "haar_hh = haar_band (- 1) (- 1) 1"

text \<open>
  Modelled from the spec: \<^verbatim>\<open>HaarForward\<close> (missing from the sources). The four bands of
  every channel, the \<open>LL\<close> bands of all channels first, then \<open>LH\<close>, \<open>HL\<close>, \<open>HH\<close>; a
  \<open>ShapeError\<close> for an odd height or width.
\<close>

definition haar_sample :: "sample \<Rightarrow> sample" where
  "haar_sample s = map haar_ll s @ map haar_lh s @ map haar_hl s @ map haar_hh s"

definition HaarForward :: "tensor \<Rightarrow> error + tensor" where
  "HaarForward x =
     (if well_shaped x \<and> even (size2 x) \<and> even (size3 x)
      then Inr (map haar_sample x)
      else Inl ShapeError)"

text \<open>
  Modelled from the spec: \<^verbatim>\<open>HaarInverse\<close> (missing from the sources). The channel axis
  holds the four band groups; channel \<open>k\<close> of the image is rebuilt from channel \<open>k\<close> of
  each group, pixel \<open>(i, j)\<close> from the four coefficients at \<open>(i div 2, j div 2)\<close> with the
  signs of the forward transform.
\<close>

definition sgn_par :: "nat \<Rightarrow> real" where
  "sgn_par n = (if even n then 1 else - 1)"

definition haar_unband :: "plane \<Rightarrow> plane \<Rightarrow> plane \<Rightarrow> plane \<Rightarrow> plane" where
  "haar_unband ll lh hl hh =
     map (\<lambda>i. map (\<lambda>j. (ll ! (i div 2) ! (j div 2)
                         + sgn_par i * lh ! (i div 2) ! (j div 2)
                         + sgn_par j * hl ! (i div 2) ! (j div 2)
                         + sgn_par i * sgn_par j * hh ! (i div 2) ! (j div 2)) / 2)
                [0..<2 * width ll])
         [0..<2 * length ll]"

definition HaarInverse :: "tensor \<Rightarrow> error + tensor" where
  "HaarInverse x =
     (if well_shaped x
      then let c = size1 x div 4
           in Inr (map (\<lambda>s. map (\<lambda>k. haar_unband (s ! k) (s ! (c + k)) (s ! (2 * c + k))
                                                  (s ! (3 * c + k))) [0..<c]) x)
      else Inl ShapeError)"

text \<open>
  \<^verbatim>\<open>DWTHaar.forward\<close> (lines 45-52): the output of \<^verbatim>\<open>HaarForward\<close> is cut into four
  channel groups of \<^verbatim>\<open>step = out.size(1) // 4\<close> channels.
\<close>

definition DWTHaar :: "tensor \<Rightarrow> error + (tensor \<times> tensor \<times> tensor \<times> tensor)" where
  "DWTHaar x =
     (case HaarForward x of
        Inl e \<Rightarrow> Inl e
      | Inr out \<Rightarrow>
          let step = size1 out div 4;
              ll = map (take step) out;
              lh = map (\<lambda>s. take (step * 2 - step) (drop step s)) out;
              hl = map (\<lambda>s. take (step * 3 - step * 2) (drop (step * 2) s)) out;
              hh = map (drop (step * 3)) out
          in Inr (ll, lh, hl, hh))"

text \<open>\<^verbatim>\<open>IWTHaar.forward\<close> (lines 60-61).\<close>

definition IWTHaar :: "tensor \<Rightarrow> tensor \<Rightarrow> tensor \<Rightarrow> tensor \<Rightarrow> error + tensor" where
  "IWTHaar ll lh hl hh =
     (case torch_cat [ll, lh, hl, hh] of Inl e \<Rightarrow> Inl e | Inr x \<Rightarrow> HaarInverse x)"

section \<open>The wavelet pyramid loss\<close>

text \<open>
  \<^verbatim>\<open>torch.nn.SmoothL1Loss()\<close> with its defaults (\<open>beta = 1\<close>, mean reduction), for two
  tensors of the same shape. The pipeline holds it in \<^verbatim>\<open>self.wavelets_criterion\<close>; the
  functions below take the criterion as an argument.
\<close>

definition flatten :: "tensor \<Rightarrow> real list" where
  "flatten x = concat (concat (concat x))"

definition SmoothL1Loss :: "tensor \<Rightarrow> tensor \<Rightarrow> real" where
  "SmoothL1Loss a b =
     (let ds = map2 (\<lambda>u v. \<bar>u - v\<bar>) (flatten a) (flatten b)
      in sum_list (map (\<lambda>d. if d < 1 then d * d / 2 else d - 1 / 2) ds) / real (length ds))"

text \<open>\<^verbatim>\<open>_add_loss\<close> (lines 268-271); Python's \<^verbatim>\<open>None\<close> is \<open>None\<close>.\<close>

fun add_loss :: "real option \<Rightarrow> real \<Rightarrow> real" where
  "add_loss None loss2 = loss2"
| "add_loss (Some loss1) loss2 = loss1 + loss2"

text \<open>
  \<^verbatim>\<open>_compute_wavelets_loss\<close> (lines 273-288). The loop runs over the levels of the
  predicted pyramid and carries \<^verbatim>\<open>gt_d0_ll\<close>, \<^verbatim>\<open>_loss\<close> and \<^verbatim>\<open>_loss_scale\<close>. Line 282
  reads \<^verbatim>\<open>_loss = self._add_loss(_loss, crit(...)) * _loss_scale\<close>: the product is taken
  of the whole sum.
\<close>

fun wavelets_loss_loop ::
  "(tensor \<Rightarrow> tensor \<Rightarrow> real) \<Rightarrow> real \<Rightarrow> tensor list \<Rightarrow> tensor \<Rightarrow> real option \<Rightarrow> real
     \<Rightarrow> error + real option" where
  "wavelets_loss_loop crit factor [] gt_d0_ll loss loss_scale = Inr loss"
| "wavelets_loss_loop crit factor (pred # rest) gt_d0_ll loss loss_scale =
     (case DWTHaar gt_d0_ll of
        Inl e \<Rightarrow> Inl e
      | Inr (gt_ll, gt_lh, gt_hl, gt_hh) \<Rightarrow>
          (case torch_cat [gt_lh, gt_hl, gt_hh] of
             Inl e \<Rightarrow> Inl e
           | Inr gt_wavelets \<Rightarrow>
               wavelets_loss_loop crit factor rest gt_ll
                 (Some (add_loss loss (crit (map (drop 3) pred) gt_wavelets) * loss_scale))
                 (loss_scale * factor)))"

definition compute_wavelets_loss ::
  "(tensor \<Rightarrow> tensor \<Rightarrow> real) \<Rightarrow> tensor list \<Rightarrow> tensor \<Rightarrow> real \<Rightarrow> error + real option" where
  "compute_wavelets_loss crit pred_wavelets_pyramid gt_image factor =
     wavelets_loss_loop crit factor pred_wavelets_pyramid gt_image None 1"

text \<open>
  \<^verbatim>\<open>_compute_adversarial_loss\<close> (lines 301-321), the sibling of the pyramid loss: the
  same loop, starting from \<open>0.0\<close>, with one scoring function per level
  (\<^verbatim>\<open>self.adverserial_losses[i]\<close>) and the update
  \<^verbatim>\<open>_loss += target_loss_function(...) * _loss_scale\<close>. The constructor sets the list
  in a commented-out block only and nothing calls the method; here the list is an
  argument, consumed one function per level.
\<close>

fun adversarial_loss_loop ::
  "(tensor \<Rightarrow> tensor \<Rightarrow> real) list \<Rightarrow> real \<Rightarrow> tensor list \<Rightarrow> tensor \<Rightarrow> real \<Rightarrow> real
     \<Rightarrow> error + real" where
  "adversarial_loss_loop fs factor [] gt_d0_ll loss loss_scale = Inr loss"
| "adversarial_loss_loop fs factor (pred # rest) gt_d0_ll loss loss_scale =
     (case DWTHaar gt_d0_ll of
        Inl e \<Rightarrow> Inl e
      | Inr (gt_ll, gt_lh, gt_hl, gt_hh) \<Rightarrow>
          (case fs of
             [] \<Rightarrow> Inl IndexError
           | target_loss_function # fs' \<Rightarrow>
               (case torch_cat [gt_lh, gt_hl, gt_hh] of
                  Inl e \<Rightarrow> Inl e
                | Inr gt_wavelets \<Rightarrow>
                    adversarial_loss_loop fs' factor rest gt_ll
                      (loss + target_loss_function (map (drop 3) pred) gt_wavelets * loss_scale)
                      (loss_scale * factor))))"

definition compute_adversarial_loss ::
  "(tensor \<Rightarrow> tensor \<Rightarrow> real) list \<Rightarrow> tensor list \<Rightarrow> tensor \<Rightarrow> real \<Rightarrow> error + real" where
  "compute_adversarial_loss fs pred_wavelets_pyramid gt_image factor =
     adversarial_loss_loop fs factor pred_wavelets_pyramid gt_image 0 1"

section \<open>The deep inverse reconstruction loss\<close>

text \<open>
  \<^verbatim>\<open>_compute_deep_iwt_loss\<close> (lines 290-299). \<^verbatim>\<open>pred_wavelets_pyramid[-1]\<close> raises
  \<open>IndexError\<close> on an empty list; the loop visits the levels from the deepest to the
  finest; unpacking \<^verbatim>\<open>torch.split(level, 3, dim=1)\<close> into four names raises
  \<open>ValueError\<close> unless there are exactly four chunks. \<open>deep_iwt_compose\<close> is the function
  up to line 295 (the image \<^verbatim>\<open>composed_image\<close> after the loop), which line 297 scores.
\<close>

fun deep_iwt_loop :: "tensor \<Rightarrow> tensor list \<Rightarrow> error + tensor" where
  "deep_iwt_loop composed_image [] = Inr composed_image"
| "deep_iwt_loop composed_image (level # rest) =
     (let chunks = torch_split level 3 in
      if length chunks \<noteq> 4 then Inl ValueError
      else (case IWTHaar composed_image (chunks ! 1) (chunks ! 2) (chunks ! 3) of
              Inl e \<Rightarrow> Inl e
            | Inr img \<Rightarrow> deep_iwt_loop (scale_tensor 2 img) rest))"

definition deep_iwt_compose :: "tensor list \<Rightarrow> error + tensor" where
  "deep_iwt_compose pred_wavelets_pyramid =
     (case rev pred_wavelets_pyramid of
        [] \<Rightarrow> Inl IndexError
      | deepest # _ \<Rightarrow> deep_iwt_loop (map (take 3) deepest) (rev pred_wavelets_pyramid))"

definition compute_deep_iwt_loss ::
  "(tensor \<Rightarrow> tensor \<Rightarrow> real) \<Rightarrow> tensor list \<Rightarrow> tensor \<Rightarrow> error + real" where
  "compute_deep_iwt_loss crit pred_wavelets_pyramid gt_image =
     (case deep_iwt_compose pred_wavelets_pyramid of
        Inl e \<Rightarrow> Inl e
      | Inr composed_image \<Rightarrow> Inr (crit composed_image gt_image))"

section \<open>The training pipeline\<close>

text \<open>
  \<^verbatim>\<open>CustomTrainingPipeline\<close>. The record holds the attributes of \<^verbatim>\<open>self\<close> that the
  methods below read or write. The network, the scoring modules, the tiled inference
  and the optimiser's update of the parameters are collaborators outside the source
  file: they are fields holding arbitrary functions. \<open>'w\<close> stands for the trainable
  state (parameters and optimiser buffers). What the pipeline asks of autograd, the
  optimiser and the progress bar is recorded in \<open>calls\<close>, what it writes to disk in
  \<open>writes\<close>, both in order.
\<close>

datatype call =
    ZeroGrad
  | Backward real
  | ClipGradNorm real
  | OptimizerStep
  | Postfix int int real real

record 'w checkpoint =
  ck_model :: 'w
  ck_optimizer :: real
  ck_acc :: real
  ck_epoch :: int

datatype 'w file_write =
    SaveCheckpoint string "'w checkpoint"
  | SaveImage string tensor

text \<open>
  \<^verbatim>\<open>torch.optim.lr_scheduler.MultiStepLR\<close>: \<^verbatim>\<open>step()\<close> advances \<^verbatim>\<open>last_epoch\<close> and
  multiplies the learning rate by \<open>gamma\<close> once for every milestone equal to the new
  \<^verbatim>\<open>last_epoch\<close>.
\<close>

record multi_step_lr =
  milestones :: "int list"
  gamma :: real
  last_epoch :: int

record 'w pipeline =
  weights :: 'w
  model :: "'w \<Rightarrow> tensor \<Rightarrow> tensor \<times> tensor list"
  update :: "'w \<Rightarrow> tensor \<Rightarrow> tensor \<Rightarrow> 'w"
  images_criterion :: "tensor \<Rightarrow> tensor \<Rightarrow> real"
  perceptual_loss :: "(tensor \<Rightarrow> tensor \<Rightarrow> real) option"
  wavelets_criterion :: "tensor \<Rightarrow> tensor \<Rightarrow> real"
  accuracy_measure :: "tensor \<Rightarrow> tensor \<Rightarrow> real"
  denoise_inference :: "'w \<Rightarrow> sample \<Rightarrow> sample"
  images_visualizer :: bool
  train_dataloader :: "(tensor \<times> tensor) list"
  val_dataset :: "(sample \<times> sample \<times> string) list option"
  checkpoints_dir :: string
  output_val_images_dir :: string
  epochs :: int
  resume_epoch :: int
  stop_criteria :: real
  best_test_score :: real
  lr :: real
  scheduler :: "multi_step_lr option"
  calls :: "call list"
  writes :: "'w file_write list"

definition scheduler_step :: "'w pipeline \<Rightarrow> 'w pipeline" where
  "scheduler_step self =
     (case scheduler self of
        None \<Rightarrow> self
      | Some sch \<Rightarrow>
          let e = last_epoch sch + 1
          in self\<lparr>lr := lr self * gamma sch ^ count_list (milestones sch) e,
                  scheduler := Some (sch\<lparr>last_epoch := e\<rparr>)\<rparr>)"

text \<open>
  The body of the batch loop of \<^verbatim>\<open>_train_step\<close> (lines 329-390). \<^verbatim>\<open>wloss * 0.2\<close> raises
  \<open>TypeError\<close> when the pyramid loss returned \<^verbatim>\<open>None\<close>. With a visualiser attached
  (lines 366-388) the two further \<^verbatim>\<open>self.dwt\<close> calls may raise (the pyramid is not empty
  there, so \<^verbatim>\<open>pred_wavelets_pyramid[0]\<close> exists); the drawing itself has no effect on
  the pipeline.
\<close>

definition train_batch ::
  "'w pipeline \<Rightarrow> int \<Rightarrow> nat \<Rightarrow> tensor \<times> tensor \<Rightarrow> real \<Rightarrow> error + real \<times> 'w pipeline" where
  "train_batch self epoch n_batches batch avg_epoch_loss =
     (let noisy_image = fst batch;
          clear_image = snd batch;
          output = model self (weights self) noisy_image;
          pred_image = fst output;
          pred_wavelets_pyramid = snd output;
          loss0 = images_criterion self pred_image clear_image;
          loss = (case perceptual_loss self of
                    None \<Rightarrow> loss0
                  | Some perceptual \<Rightarrow> loss0 / 2 + perceptual pred_image clear_image / 2)
      in case compute_wavelets_loss (wavelets_criterion self) pred_wavelets_pyramid clear_image 1 of
           Inl e \<Rightarrow> Inl e
         | Inr None \<Rightarrow> Inl TypeError
         | Inr (Some wloss) \<Rightarrow>
             let total_loss = loss + wloss * (2 / 10);
                 self' = self\<lparr>weights := update self (weights self) noisy_image clear_image,
                              calls := calls self @
                                [ZeroGrad, Backward total_loss, ClipGradNorm 2, OptimizerStep,
                                 Postfix epoch (epochs self) loss wloss]\<rparr>;
                 avg' = avg_epoch_loss + loss / real n_batches
             in if images_visualizer self
                then (case DWTHaar clear_image of
                        Inl e \<Rightarrow> Inl e
                      | Inr wavelets_gt \<Rightarrow>
                          (case DWTHaar noisy_image of
                             Inl e \<Rightarrow> Inl e
                           | Inr wavelets_inp \<Rightarrow> Inr (avg', self')))
                else Inr (avg', self'))"

fun train_loop ::
  "'w pipeline \<Rightarrow> int \<Rightarrow> nat \<Rightarrow> (tensor \<times> tensor) list \<Rightarrow> real \<Rightarrow> error + real \<times> 'w pipeline" where
  "train_loop self epoch n [] avg_epoch_loss = Inr (avg_epoch_loss, self)"
| "train_loop self epoch n (batch # rest) avg_epoch_loss =
     (case train_batch self epoch n batch avg_epoch_loss of
        Inl e \<Rightarrow> Inl e
      | Inr (avg', self') \<Rightarrow> train_loop self' epoch n rest avg')"

text \<open>
  \<^verbatim>\<open>_train_step\<close> (lines 323-392). The data loader shuffles; \<open>train_dataloader\<close> is the
  sequence of batches it yields in the epoch at hand.
\<close>

definition train_step :: "'w pipeline \<Rightarrow> int \<Rightarrow> error + real \<times> 'w pipeline" where
  "train_step self epoch =
     train_loop self epoch (length (train_dataloader self)) (train_dataloader self) 0"

text \<open>Python's \<^verbatim>\<open>a / b\<close> on numbers.\<close>

definition truediv :: "real \<Rightarrow> real \<Rightarrow> error + real" where
  "truediv a b = (if b = 0 then Inl ZeroDivisionError else Inr (a / b))"

text \<open>
  \<^verbatim>\<open>_validation_step\<close> (lines 394-445). The loop carries \<^verbatim>\<open>avg_acc_rate\<close>,
  \<^verbatim>\<open>avg_loss_rate\<close> and \<^verbatim>\<open>test_len\<close> and writes one restored image per sample (the
  log keeps the restored tensor; clipping and colour conversion are left out). The
  averages are returned as \<open>(avg_loss_rate, avg_acc_rate)\<close>.
\<close>

fun validation_loop ::
  "'w pipeline \<Rightarrow> (sample \<times> sample \<times> string) list \<Rightarrow> real \<Rightarrow> real \<Rightarrow> nat
     \<Rightarrow> real \<times> real \<times> nat \<times> 'w pipeline" where
  "validation_loop self [] avg_acc_rate avg_loss_rate test_len =
     (avg_acc_rate, avg_loss_rate, test_len, self)"
| "validation_loop self ((noisy_image, clear_image, image_name) # rest)
       avg_acc_rate avg_loss_rate test_len =
     (let restored_image = [denoise_inference self (weights self) noisy_image];
          loss0 = images_criterion self restored_image [clear_image];
          loss = (case perceptual_loss self of
                    None \<Rightarrow> loss0
                  | Some perceptual \<Rightarrow> loss0 / 2 + perceptual restored_image [clear_image] / 2);
          acc_rate = accuracy_measure self restored_image [clear_image];
          result_path = output_val_images_dir self @ image_name;
          self' = self\<lparr>writes := writes self @ [SaveImage result_path restored_image]\<rparr>
      in validation_loop self' rest (avg_acc_rate + acc_rate) (avg_loss_rate + loss)
           (test_len + 1))"

definition validation_step :: "'w pipeline \<Rightarrow> error + (real \<times> real) \<times> 'w pipeline" where
  "validation_step self =
     (let (avg_acc_rate, avg_loss_rate, test_len, self') =
            (case val_dataset self of
               None \<Rightarrow> (0, 0, 0, self)
             | Some samples \<Rightarrow> validation_loop self samples 0 0 0)
      in case (if test_len > 0
               then (case truediv avg_acc_rate (real test_len) of
                       Inl e \<Rightarrow> Inl e
                     | Inr a \<Rightarrow>
                         (case truediv avg_loss_rate (real test_len) of
                            Inl e \<Rightarrow> Inl e
                          | Inr l \<Rightarrow> Inr (a, l)))
               else Inr (avg_acc_rate, avg_loss_rate)) of
           Inl e \<Rightarrow> Inl e
         | Inr (a, l) \<Rightarrow> Inr ((l, a), scheduler_step self'))"

text \<open>
  \<^verbatim>\<open>_save_best_checkpoint\<close> (lines 462-491); \<^verbatim>\<open>checkpoints_dir\<close> ends in a slash, so
  \<^verbatim>\<open>os.path.join\<close> appends the file name.
\<close>

definition save_best_checkpoint :: "'w pipeline \<Rightarrow> int \<Rightarrow> real \<Rightarrow> 'w pipeline" where
  "save_best_checkpoint self epoch avg_acc_rate =
     (let best_model_path = checkpoints_dir self @ ''best.trh'';
          latest_model_path = checkpoints_dir self @ ''last.trh'';
          save_state = \<lparr>ck_model = weights self, ck_optimizer = lr self,
                        ck_acc = avg_acc_rate, ck_epoch = epoch\<rparr>;
          self' = self\<lparr>writes := writes self @ [SaveCheckpoint latest_model_path save_state]\<rparr>
      in if best_test_score self' - avg_acc_rate < - (1 / 100000)
         then self'\<lparr>best_test_score := avg_acc_rate,
                    writes := writes self' @ [SaveCheckpoint best_model_path save_state]\<rparr>
         else self')"

text \<open>\<^verbatim>\<open>_check_stop_criteria\<close> (lines 493-494); \<^verbatim>\<open>get_lr\<close> is the field \<open>lr\<close>.\<close>

definition check_stop_criteria :: "'w pipeline \<Rightarrow> bool" where
  "check_stop_criteria self \<longleftrightarrow> lr self - stop_criteria self < - (1 / 1000000000)"

text \<open>
  \<^verbatim>\<open>fit\<close> (lines 496-504). \<open>run_epoch\<close> is lines 498-501 (\<^verbatim>\<open>_plot_values\<close> only draws);
  \<open>fit_loop\<close> runs over \<^verbatim>\<open>range(self.resume_epoch, self.epochs + 1)\<close>, with the
  \<^verbatim>\<open>break\<close> of line 504.
\<close>

definition run_epoch :: "'w pipeline \<Rightarrow> int \<Rightarrow> error + 'w pipeline" where
  "run_epoch self epoch_num =
     (case train_step self epoch_num of
        Inl e \<Rightarrow> Inl e
      | Inr (epoch_train_loss, self1) \<Rightarrow>
          (case validation_step self1 of
             Inl e \<Rightarrow> Inl e
           | Inr ((val_loss, val_acc), self2) \<Rightarrow>
               Inr (save_best_checkpoint self2 epoch_num val_acc)))"

fun fit_loop :: "'w pipeline \<Rightarrow> int list \<Rightarrow> error + 'w pipeline" where
  "fit_loop self [] = Inr self"
| "fit_loop self (epoch_num # rest) =
     (case run_epoch self epoch_num of
        Inl e \<Rightarrow> Inl e
      | Inr self' \<Rightarrow>
          if scheduler self' \<noteq> None \<and> check_stop_criteria self' then Inr self'
          else fit_loop self' rest)"

definition fit :: "'w pipeline \<Rightarrow> error + 'w pipeline" where
  "fit self = fit_loop self [resume_epoch self..epochs self]"

section \<open>Reading the logs\<close>



text \<open>
  The pixel loss in the spec's words: the image criterion, blended 50/50 with the
  perceptual loss when one is configured.
\<close>

definition pixel_loss :: "'w pipeline \<Rightarrow> tensor \<Rightarrow> tensor \<Rightarrow> real" where
  "pixel_loss self pred gt =
     (case perceptual_loss self of
        None \<Rightarrow> images_criterion self pred gt
      | Some perceptual \<Rightarrow> (images_criterion self pred gt + perceptual pred gt) / 2)"

text \<open>
  The batches of one \<^verbatim>\<open>_train_step\<close> seen from outside: the parameters each batch starts
  from (the optimiser's update applied batch after batch), and for each batch the pixel
  loss and the pyramid loss of what the network predicts with those parameters.
\<close>

fun weights_before :: "'w pipeline \<Rightarrow> 'w \<Rightarrow> (tensor \<times> tensor) list \<Rightarrow> 'w list" where
  "weights_before self w [] = []"
| "weights_before self w (batch # rest) =
     w # weights_before self (update self w (fst batch) (snd batch)) rest"

definition batch_pixel_loss :: "'w pipeline \<Rightarrow> 'w \<Rightarrow> tensor \<times> tensor \<Rightarrow> real" where
  "batch_pixel_loss self w batch = pixel_loss self (fst (model self w (fst batch))) (snd batch)"

definition batch_pyramid_loss ::
  "'w pipeline \<Rightarrow> 'w \<Rightarrow> tensor \<times> tensor \<Rightarrow> error + real option" where
  "batch_pyramid_loss self w batch =
     compute_wavelets_loss (wavelets_criterion self) (snd (model self w (fst batch)))
       (snd batch) 1"

definition step_pixel_losses :: "'w pipeline \<Rightarrow> real list" where
  "step_pixel_losses self =
     map2 (batch_pixel_loss self)
       (weights_before self (weights self) (train_dataloader self)) (train_dataloader self)"

definition step_pyramid_losses :: "'w pipeline \<Rightarrow> (error + real option) list" where
  "step_pyramid_losses self =
     map2 (batch_pyramid_loss self)
       (weights_before self (weights self) (train_dataloader self)) (train_dataloader self)"

text \<open>
  The pairs \<^verbatim>\<open>(px_loss, w_loss)\<close> shown on the progress bar and the losses handed to
  \<^verbatim>\<open>backward()\<close>, oldest first.
\<close>

definition reported :: "call list \<Rightarrow> (real \<times> real) list" where
  "reported cs = concat (map (\<lambda>c. case c of Postfix e n p w \<Rightarrow> [(p, w)] | _ \<Rightarrow> []) cs)"

definition backpropagated :: "call list \<Rightarrow> real list" where
  "backpropagated cs = concat (map (\<lambda>c. case c of Backward t \<Rightarrow> [t] | _ \<Rightarrow> []) cs)"

text \<open>What a batch leaves behind: the running average, the calls, the parameters.\<close>

definition outcome :: "error + real \<times> 'w pipeline \<Rightarrow> error + real \<times> call list \<times> 'w" where
  "outcome r = (case r of Inl e \<Rightarrow> Inl e | Inr (a, s) \<Rightarrow> Inr (a, calls s, weights s))"

text \<open>
  The stop condition in the spec's words (a scheduler is active and
  \<open>current_lr - stop_threshold < -1e-9\<close>), and a run of epochs: \<open>follows self es ss\<close>
  says that the epochs \<open>es\<close>, run one after the other from \<open>self\<close>, all complete and
  leave the states \<open>ss\<close>.
\<close>

definition stop_now :: "'w pipeline \<Rightarrow> bool" where
  "stop_now self \<longleftrightarrow> scheduler self \<noteq> None \<and> lr self - stop_criteria self < - (1 / 10 ^ 9)"

fun follows :: "'w pipeline \<Rightarrow> int list \<Rightarrow> 'w pipeline list \<Rightarrow> bool" where
  "follows self [] [] = True"
| "follows self (e # es) (t # ts) = (run_epoch self e = Inr t \<and> follows t es ts)"
| "follows self [] (t # ts) = False"
| "follows self (e # es) [] = False"

section \<open>Statements about the transforms and the losses\<close>

text \<open>The forward transform followed by the inverse transform.\<close>

definition round_trip :: "tensor \<Rightarrow> error + tensor" where
  "round_trip x =
     (case DWTHaar x of Inl e \<Rightarrow> Inl e | Inr (ll, lh, hl, hh) \<Rightarrow> IWTHaar ll lh hl hh)"

text \<open>
  A pyramid level of \<open>b\<close> images with twelve \<open>h\<close> by \<open>w\<close> channels whose nine detail
  channels are zero, and a list of such levels from the deepest to the finest, every
  level twice as high and wide as the one before.
\<close>

definition zero_details :: "nat \<Rightarrow> nat \<Rightarrow> nat \<Rightarrow> tensor \<Rightarrow> bool" where
  "zero_details b h w level \<longleftrightarrow>
     is_tensor b 12 h w level \<and> map (drop 3) level = const_tensor b 9 h w 0"

fun zero_detail_levels :: "nat \<Rightarrow> nat \<Rightarrow> nat \<Rightarrow> tensor list \<Rightarrow> bool" where
  "zero_detail_levels b h w [] = True"
| "zero_detail_levels b h w (level # rest) =
     (zero_details b h w level \<and> zero_detail_levels b (2 * h) (2 * w) rest)"

text \<open>
  The per-level losses of the pyramid loss: the criterion on the detail slice of each
  predicted level and the detail bands of the ground truth decomposed to that level.
  \<open>weighted_sum\<close> is the sum the spec describes, level \<open>i\<close> weighted by \<open>factor ^ i\<close>;
  \<open>accumulate\<close> is what the loop of \<^verbatim>\<open>_compute_wavelets_loss\<close> does with the per-level
  losses.
\<close>

fun level_losses :: "(tensor \<Rightarrow> tensor \<Rightarrow> real) \<Rightarrow> tensor list \<Rightarrow> tensor \<Rightarrow> error + real list" where
  "level_losses crit [] gt_d0_ll = Inr []"
| "level_losses crit (pred # rest) gt_d0_ll =
     (case DWTHaar gt_d0_ll of
        Inl e \<Rightarrow> Inl e
      | Inr (gt_ll, gt_lh, gt_hl, gt_hh) \<Rightarrow>
          (case torch_cat [gt_lh, gt_hl, gt_hh] of
             Inl e \<Rightarrow> Inl e
           | Inr gt_wavelets \<Rightarrow>
               (case level_losses crit rest gt_ll of
                  Inl e \<Rightarrow> Inl e
                | Inr cs \<Rightarrow> Inr (crit (map (drop 3) pred) gt_wavelets # cs))))"

fun accumulate :: "real \<Rightarrow> real list \<Rightarrow> real option \<Rightarrow> real \<Rightarrow> real option" where
  "accumulate factor [] loss loss_scale = loss"
| "accumulate factor (c # cs) loss loss_scale =
     accumulate factor cs (Some (add_loss loss c * loss_scale)) (loss_scale * factor)"

definition weighted_sum :: "real \<Rightarrow> real list \<Rightarrow> real" where
  "weighted_sum factor cs = (\<Sum>i<length cs. cs ! i * factor ^ i)"

text \<open>
  Three predicted levels (4x4, 2x2, 1x1) whose detail channels are 1.5 everywhere, and
  an 8x8 ground truth that is zero, so that every per-level smooth-L1 loss is 1; a
  2x2 image; a two-level pyramid with zero detail bands.
\<close>

definition three_levels :: "tensor list" where
  "three_levels = [const_tensor 1 12 4 4 (3 / 2), const_tensor 1 12 2 2 (3 / 2),
                   const_tensor 1 12 1 1 (3 / 2)]"

definition zero_image :: tensor where
  "zero_image = const_tensor 1 3 8 8 0"

definition demo_image :: tensor where
  "demo_image = [[[[1, 2], [3, 4]], [[5, 6], [7, 8]], [[0, - 1], [1 / 2, 9]]]]"

definition two_levels :: "tensor list" where
  "two_levels = [[replicate 3 [[7, 7], [7, 7]] @ replicate 9 [[0, 0], [0, 0]]],
                 [replicate 3 [[3]] @ replicate 9 [[0]]]]"

section \<open>A small pipeline\<close>

text \<open>
  One batch of one 2x2 image with three channels, a network that always predicts the
  same image and a one-level pyramid, smooth-L1 in place of the image criterion, a
  perceptual score that is always 1, five epochs and a scheduler with milestones at
  the epochs 1 to 4. The initial learning rate \<open>1e-4\<close>, \<open>gamma = 0.1\<close> and the stop
  threshold \<open>1e-7\<close> are those of the source.
\<close>

definition DWTHaar_out :: "tensor \<Rightarrow> tensor \<times> tensor \<times> tensor \<times> tensor" where
  "DWTHaar_out x = (case DWTHaar x of Inr r \<Rightarrow> r | Inl e \<Rightarrow> ([], [], [], []))"

definition demo_noisy :: tensor where "demo_noisy = const_tensor 1 3 2 2 (1 / 2)"
definition demo_clear :: tensor where "demo_clear = const_tensor 1 3 2 2 0"
definition demo_pred :: tensor where "demo_pred = const_tensor 1 3 2 2 1"

definition demo_level :: tensor where
  "demo_level = [replicate 3 [[2]] @ replicate 9 [[3 / 2]]]"

definition flat_level :: tensor where
  "flat_level = [replicate 3 [[0]] @ replicate 9 [[3 / 2]]]"

definition flat_model :: "nat \<Rightarrow> tensor \<Rightarrow> tensor \<times> tensor list" where
  "flat_model w x = (demo_pred, [flat_level])"

definition demo :: "nat pipeline" where
  "demo = \<lparr>weights = 0,
           model = (\<lambda>w x. (demo_pred, [demo_level])),
           update = (\<lambda>w a b. Suc w),
           images_criterion = SmoothL1Loss,
           perceptual_loss = Some (\<lambda>a b. 1),
           wavelets_criterion = SmoothL1Loss,
           accuracy_measure = (\<lambda>a b. 30),
           denoise_inference = (\<lambda>w s. s),
           images_visualizer = True,
           train_dataloader = [(demo_noisy, demo_clear)],
           val_dataset = Some [],
           checkpoints_dir = ''exp/checkpoints/'',
           output_val_images_dir = ''exp/val_outputs/'',
           epochs = 5,
           resume_epoch = 1,
           stop_criteria = 1 / 10000000,
           best_test_score = 0,
           lr = 1 / 10000,
           scheduler = Some \<lparr>milestones = [1, 2, 3, 4], gamma = 1 / 10, last_epoch = 0\<rparr>,
           calls = [],
           writes = []\<rparr>"

definition demo_calls :: "call list" where
  "demo_calls =
     [ZeroGrad, Backward (19 / 20), ClipGradNorm 2, OptimizerStep, Postfix 1 5 (3 / 4) 1]"

text \<open>The small pipeline after \<open>k\<close> epochs.\<close>

definition demo_after :: "nat \<Rightarrow> nat pipeline" where
  "demo_after k =
     demo\<lparr>weights := k,
          lr := 1 / (10000 * 10 ^ k),
          scheduler := Some \<lparr>milestones = [1, 2, 3, 4], gamma = 1 / 10, last_epoch = int k\<rparr>,
          calls := concat (map (\<lambda>e. [ZeroGrad, Backward (19 / 20), ClipGradNorm 2, OptimizerStep,
                                      Postfix (int e) 5 (3 / 4) 1]) [1..<Suc k]),
          writes := map (\<lambda>e. SaveCheckpoint ''exp/checkpoints/last.trh''
                               \<lparr>ck_model = e, ck_optimizer = 1 / (10000 * 10 ^ e), ck_acc = 0,
                                ck_epoch = int e\<rparr>) [1..<Suc k]\<rparr>"

text \<open>
  The same pipeline with two batches and a network whose predicted image changes once
  the parameters have been updated.
\<close>

definition step_model :: "nat \<Rightarrow> tensor \<Rightarrow> tensor \<times> tensor list" where
  "step_model w x = (if w = 0 then demo_pred else demo_clear, [demo_level])"

definition demo2 :: "nat pipeline" where
  "demo2 = demo\<lparr>model := step_model,
                 train_dataloader := [(demo_noisy, demo_clear), (demo_clear, demo_clear)]\<rparr>"

definition demo2_calls :: "call list" where
  "demo2_calls =
     [ZeroGrad, Backward (19 / 20), ClipGradNorm 2, OptimizerStep, Postfix 1 5 (3 / 4) 1,
      ZeroGrad, Backward (7 / 10), ClipGradNorm 2, OptimizerStep, Postfix 1 5 (1 / 2) 1]"

section \<open>Helper facts\<close>

subsection \<open>Shapes and the Haar transform\<close>

lemma is_plane_nth: "is_plane h w p \<Longrightarrow> i < h \<Longrightarrow> length (p ! i) = w"
  by (simp add: is_plane_def list_all_length)

lemma width_plane: "is_plane h w p \<Longrightarrow> 0 < h \<Longrightarrow> width p = w"
  by (cases p) (auto simp: is_plane_def width_def)

lemma haar_band_length: "length (haar_band a b c p) = length p div 2"
  by (simp add: haar_band_def)

lemma haar_band_width:
  "is_plane h w p \<Longrightarrow> 2 \<le> h \<Longrightarrow> width (haar_band a b c p) = w div 2"
proof -
  assume p: "is_plane h w p" and h: "2 \<le> h"
  then have "width p = w" "length p = h" by (auto simp: width_plane is_plane_def)
  moreover from h have "0 < h div 2" by simp
  ultimately show ?thesis
    by (simp add: haar_band_def width_def upt_conv_Cons split: list.splits)
qed

lemma haar_band_nth:
  "is_plane h w p \<Longrightarrow> i < h div 2 \<Longrightarrow> j < w div 2 \<Longrightarrow>
   haar_band a b c p ! i ! j =
     (p ! (2 * i) ! (2 * j) + a * p ! (2 * i) ! (2 * j + 1) + b * p ! (2 * i + 1) ! (2 * j)
        + c * p ! (2 * i + 1) ! (2 * j + 1)) / 2"
proof -
  assume p: "is_plane h w p" and i: "i < h div 2" and j: "j < w div 2"
  then have "width p = w" "length p = h" by (auto simp: width_plane is_plane_def)
  with i j show ?thesis by (simp add: haar_band_def)
qed

lemma haar_band_plane: "is_plane h w p \<Longrightarrow> is_plane (h div 2) (w div 2) (haar_band a b c p)"
proof -
  assume p: "is_plane h w p"
  show ?thesis
  proof (cases "0 < h")
    case True
    with p have "width p = w" "length p = h" by (auto simp: width_plane is_plane_def)
    then show ?thesis by (simp add: is_plane_def haar_band_def list_all_length)
  next
    case False
    with p show ?thesis by (simp add: is_plane_def haar_band_def)
  qed
qed

lemma haar_unband_band:
  assumes p: "is_plane h w p" and eh: "even h" and ew: "even w"
  shows "haar_unband (haar_ll p) (haar_lh p) (haar_hl p) (haar_hh p) = p"
proof (cases "h = 0")
  case True
  with p show ?thesis by (simp add: is_plane_def haar_unband_def haar_ll_def haar_band_def)
next
  case False
  with eh have h2: "2 \<le> h" by (auto elim!: evenE)
  have len: "length p = h" using p by (simp add: is_plane_def)
  have wll: "width (haar_ll p) = w div 2"
    unfolding haar_ll_def by (rule haar_band_width [OF p h2])
  have lll: "length (haar_ll p) = h div 2"
    by (simp add: haar_ll_def haar_band_length len)
  show ?thesis
  proof (rule nth_equalityI)
    show "length (haar_unband (haar_ll p) (haar_lh p) (haar_hl p) (haar_hh p)) = length p"
      using eh by (simp add: haar_unband_def lll len)
  next
    fix i
    assume "i < length (haar_unband (haar_ll p) (haar_lh p) (haar_hl p) (haar_hh p))"
    then have i: "i < h" using eh by (simp add: haar_unband_def lll)
    then have i2: "i div 2 < h div 2" using eh by (metis dvd_mult_div_cancel less_mult_imp_div_less mult.commute)
    have rowlen: "length (p ! i) = w" by (rule is_plane_nth [OF p i])
    show "haar_unband (haar_ll p) (haar_lh p) (haar_hl p) (haar_hh p) ! i = p ! i"
    proof (rule nth_equalityI)
      show "length (haar_unband (haar_ll p) (haar_lh p) (haar_hl p) (haar_hh p) ! i)
              = length (p ! i)"
        using i eh ew by (simp add: haar_unband_def lll wll rowlen)
    next
      fix j
      assume "j < length (haar_unband (haar_ll p) (haar_lh p) (haar_hl p) (haar_hh p) ! i)"
      then have j: "j < w" using i eh ew by (simp add: haar_unband_def lll wll)
      then have j2: "j div 2 < w div 2" using ew by (metis dvd_mult_div_cancel less_mult_imp_div_less mult.commute)
      have ri: "2 * (i div 2) = (if even i then i else i - 1)" by auto
      have rj: "2 * (j div 2) = (if even j then j else j - 1)" by auto
      have e: "haar_unband (haar_ll p) (haar_lh p) (haar_hl p) (haar_hh p) ! i ! j =
        (haar_ll p ! (i div 2) ! (j div 2) + sgn_par i * haar_lh p ! (i div 2) ! (j div 2)
          + sgn_par j * haar_hl p ! (i div 2) ! (j div 2)
          + sgn_par i * sgn_par j * haar_hh p ! (i div 2) ! (j div 2)) / 2"
        using i j eh ew by (simp add: haar_unband_def lll wll)
      note b = haar_band_nth [OF p i2 j2]
      have "(haar_ll p ! (i div 2) ! (j div 2) + sgn_par i * haar_lh p ! (i div 2) ! (j div 2)
          + sgn_par j * haar_hl p ! (i div 2) ! (j div 2)
          + sgn_par i * sgn_par j * haar_hh p ! (i div 2) ! (j div 2)) / 2 = p ! i ! j"
        by (cases "even i"; cases "even j")
           (simp_all add: haar_ll_def haar_lh_def haar_hl_def haar_hh_def b sgn_par_def ri rj
              field_simps)
      with e show "haar_unband (haar_ll p) (haar_lh p) (haar_hl p) (haar_hh p) ! i ! j = p ! i ! j"
        by (simp only:)
    qed
  qed
qed


lemma is_tensor_sizes:
  assumes "is_tensor b c h w x"
  shows "size1 x = (if b = 0 then 0 else c)"
    and "size2 x = (if b = 0 \<or> c = 0 then 0 else h)"
    and "size3 x = (if b = 0 \<or> c = 0 \<or> h = 0 then 0 else w)"
  using assms
  by (auto simp: is_tensor_def is_plane_def size1_def size2_def size3_def split: list.splits)

lemma is_tensor_well_shaped: "is_tensor b c h w x \<Longrightarrow> well_shaped x"
  unfolding well_shaped_def
  by (auto simp: is_tensor_sizes) (fastforce simp: is_tensor_def is_plane_def list_all_iff)+

lemma is_tensor_same_outer:
  "is_tensor b c h w x \<Longrightarrow> is_tensor b c h w y \<Longrightarrow> same_outer x y"
  by (simp add: same_outer_def is_tensor_sizes) (simp add: is_tensor_def)

lemma is_tensor_sample: "is_tensor b c h w x \<Longrightarrow> s \<in> set x \<Longrightarrow> length s = c"
  by (auto simp: is_tensor_def list_all_iff)

lemma haar_sample_tensor:
  assumes "is_tensor b c h w x"
  shows "is_tensor b (4 * c) (h div 2) (w div 2) (map haar_sample x)"
  using assms
  by (auto simp: is_tensor_def list_all_iff haar_sample_def haar_ll_def haar_lh_def haar_hl_def
        haar_hh_def haar_band_plane)

lemma HaarForward_tensor:
  assumes "is_tensor b c h w x" "even h" "even w"
  shows "HaarForward x = Inr (map haar_sample x)"
  using assms is_tensor_well_shaped [OF assms(1)]
  by (simp add: HaarForward_def is_tensor_sizes haar_sample_def)

lemma DWTHaar_tensor:
  assumes "is_tensor b c h w x" "even h" "even w"
  shows "DWTHaar x = Inr (map (map haar_ll) x, map (map haar_lh) x, map (map haar_hl) x,
                          map (map haar_hh) x)"
proof (cases "b = 0")
  case True
  with assms(1) have "x = []" by (simp add: is_tensor_def)
  then show ?thesis
    by (simp add: DWTHaar_def HaarForward_def well_shaped_def is_tensor_def size1_def size2_def
          size3_def)
next
  case False
  have st: "size1 (map haar_sample x) div 4 = c"
    using is_tensor_sizes(1) [OF haar_sample_tensor [OF assms(1)]] False by simp
  have "\<And>s. s \<in> set x \<Longrightarrow> length s = c" using assms(1) by (rule is_tensor_sample)
  then show ?thesis
    by (simp add: DWTHaar_def HaarForward_tensor [OF assms] st Let_def haar_sample_def)
qed

lemma map2_same: "map2 f (map g xs) (map h xs) = map (\<lambda>x. f (g x) (h x)) xs"
  by (induction xs) auto

lemma cat_channels_4:
  "cat_channels [map f1 x, map f2 x, map f3 x, map f4 x] = map (\<lambda>s. f1 s @ f2 s @ f3 s @ f4 s) x"
  by (simp add: map2_same)

lemma haar_unband_sample:
  assumes "list_all (is_plane h w) s" "even h" "even w"
  shows "map (\<lambda>k. haar_unband (haar_sample s ! k) (haar_sample s ! (length s + k))
                 (haar_sample s ! (2 * length s + k)) (haar_sample s ! (3 * length s + k)))
           [0..<length s] = s"
proof (rule nth_equalityI)
  show "length (map (\<lambda>k. haar_unband (haar_sample s ! k) (haar_sample s ! (length s + k))
                 (haar_sample s ! (2 * length s + k)) (haar_sample s ! (3 * length s + k)))
           [0..<length s]) = length s" by simp
next
  fix k
  assume "k < length (map (\<lambda>k. haar_unband (haar_sample s ! k) (haar_sample s ! (length s + k))
                 (haar_sample s ! (2 * length s + k)) (haar_sample s ! (3 * length s + k)))
           [0..<length s])"
  then have k: "k < length s" by simp
  then have p: "is_plane h w (s ! k)" using assms(1) by (simp add: list_all_length)
  have "haar_sample s ! k = haar_ll (s ! k)"
       "haar_sample s ! (length s + k) = haar_lh (s ! k)"
       "haar_sample s ! (2 * length s + k) = haar_hl (s ! k)"
       "haar_sample s ! (3 * length s + k) = haar_hh (s ! k)"
    using k by (simp_all add: haar_sample_def nth_append)
  with k show "map (\<lambda>k. haar_unband (haar_sample s ! k) (haar_sample s ! (length s + k))
                 (haar_sample s ! (2 * length s + k)) (haar_sample s ! (3 * length s + k)))
           [0..<length s] ! k = s ! k"
    by (simp add: haar_unband_band [OF p assms(2,3)])
qed

lemma const_tensor_is_tensor: "is_tensor b c h w (const_tensor b c h w v)"
  by (simp add: is_tensor_def is_plane_def const_tensor_def list_all_iff)

lemma haar_unband_const:
  "haar_unband (replicate h (replicate w v)) (replicate h (replicate w 0))
     (replicate h (replicate w 0)) (replicate h (replicate w 0))
   = replicate (2 * h) (replicate (2 * w) (v / 2))"
proof (cases "h = 0")
  case True
  then show ?thesis by (simp add: haar_unband_def)
next
  case False
  then have wd: "width (replicate h (replicate w v)) = w"
    by (cases h) (auto simp: width_def)
  show ?thesis
    unfolding haar_unband_def wd
    by (auto intro!: nth_equalityI simp: less_mult_imp_div_less mult.commute)
qed

lemma HaarInverse_const:
  assumes "0 < b"
  shows "HaarInverse (replicate b (replicate 3 (replicate h (replicate w v))
                                   @ replicate 9 (replicate h (replicate w 0))))
         = Inr (const_tensor b 3 (2 * h) (2 * w) (v / 2))"
proof -
  let ?pv = "replicate h (replicate w v)" and ?pz = "replicate h (replicate w (0::real))"
  let ?s = "replicate 3 ?pv @ replicate 9 ?pz"
  have t: "is_tensor b 12 h w (replicate b ?s)"
    by (auto simp: is_tensor_def is_plane_def list_all_iff)
  have st: "size1 (replicate b ?s) div 4 = 3"
    using is_tensor_sizes(1) [OF t] assms by simp
  have "map (\<lambda>k. haar_unband (?s ! k) (?s ! (3 + k)) (?s ! (2 * 3 + k)) (?s ! (3 * 3 + k)))
          [0..<3] = replicate 3 (replicate (2 * h) (replicate (2 * w) (v / 2)))"
    by (auto intro!: nth_equalityI simp: nth_append haar_unband_const)
  then show ?thesis
    using is_tensor_well_shaped [OF t]
    by (simp add: HaarInverse_def st Let_def const_tensor_def)
qed

lemma IWTHaar_const:
  assumes "0 < b"
  shows "IWTHaar (const_tensor b 3 h w v) (const_tensor b 3 h w 0) (const_tensor b 3 h w 0)
           (const_tensor b 3 h w 0) = Inr (const_tensor b 3 (2 * h) (2 * w) (v / 2))"
proof -
  have so: "same_outer (const_tensor b 3 h w v) (const_tensor b 3 h w u)" for u
    by (rule is_tensor_same_outer [OF const_tensor_is_tensor const_tensor_is_tensor])
  have cat: "torch_cat [const_tensor b 3 h w v, const_tensor b 3 h w 0, const_tensor b 3 h w 0,
                        const_tensor b 3 h w 0]
      = Inr (replicate b (replicate 3 (replicate h (replicate w v))
                          @ replicate 9 (replicate h (replicate w 0))))"
    using so
    by (simp add: torch_cat_def del: cat_channels.simps)
       (simp add: const_tensor_def replicate_add [symmetric])
  show ?thesis
    by (simp add: IWTHaar_def cat HaarInverse_const [OF assms] del: cat_channels.simps)
qed

lemma scale_const: "scale_tensor k (const_tensor b c h w v) = const_tensor b c h w (v * k)"
  by (simp add: scale_tensor_def const_tensor_def)

lemma zero_details_split:
  assumes "zero_details b h w level" "0 < b"
  shows "length (torch_split level 3) = 4"
    and "torch_split level 3 ! Suc 0 = const_tensor b 3 h w 0"
    and "torch_split level 3 ! 2 = const_tensor b 3 h w 0"
    and "torch_split level 3 ! 3 = const_tensor b 3 h w 0"
proof -
  from assms have t: "is_tensor b 12 h w level"
    and d: "map (drop 3) level = const_tensor b 9 h w 0" by (simp_all add: zero_details_def)
  have s1: "size1 level = 12" using is_tensor_sizes(1) [OF t] assms(2) by simp
  show "length (torch_split level 3) = 4" by (simp add: torch_split_def s1)
  have c: "torch_split level 3 ! k = map (\<lambda>s. take 3 (drop (k * 3) s)) level" if "k < 4" for k
    using that by (simp add: torch_split_def s1)
  have "map (\<lambda>s. take 3 (drop 3 s)) level = map (take 3) (map (drop 3) level)" by simp
  also have "\<dots> = const_tensor b 3 h w 0" by (simp only: d) (simp add: const_tensor_def)
  finally show "torch_split level 3 ! Suc 0 = const_tensor b 3 h w 0" using c [of 1] by simp
  have "map (\<lambda>s. take 3 (drop 6 s)) level = map (\<lambda>s. take 3 (drop 3 s)) (map (drop 3) level)"
    by simp
  also have "\<dots> = const_tensor b 3 h w 0" by (simp only: d) (simp add: const_tensor_def)
  finally show "torch_split level 3 ! 2 = const_tensor b 3 h w 0" by (simp add: c)
  have "map (\<lambda>s. take 3 (drop 9 s)) level = map (\<lambda>s. take 3 (drop 6 s)) (map (drop 3) level)"
    by simp
  also have "\<dots> = const_tensor b 3 h w 0" by (simp only: d) (simp add: const_tensor_def)
  finally show "torch_split level 3 ! 3 = const_tensor b 3 h w 0" by (simp add: c)
qed

lemma deep_iwt_loop_const:
  "0 < b \<Longrightarrow> zero_detail_levels b h w levels \<Longrightarrow>
   deep_iwt_loop (const_tensor b 3 h w v) levels
     = Inr (const_tensor b 3 (h * 2 ^ length levels) (w * 2 ^ length levels) v)"
proof (induction levels arbitrary: h w)
  case Nil
  then show ?case by simp
next
  case (Cons level rest)
  from Cons.prems have z: "zero_details b h w level"
    and r: "zero_detail_levels b (2 * h) (2 * w) rest" by simp_all
  note sp = zero_details_split [OF z Cons.prems(1)]
  show ?case
    using Cons.IH [OF Cons.prems(1) r]
    by (simp add: sp IWTHaar_const [OF Cons.prems(1)] scale_const Let_def mult_ac)
qed

subsection \<open>The pyramid loss as a recurrence on the per-level losses\<close>

lemma wavelets_loss_loop_accumulate:
  "level_losses crit pyr gt = Inr cs \<Longrightarrow>
   wavelets_loss_loop crit factor pyr gt loss sc = Inr (accumulate factor cs loss sc)"
  by (induction pyr arbitrary: gt cs loss sc) (auto split: sum.splits prod.splits)

lemma weighted_sum_Cons:
  "weighted_sum factor (c # cs) = c + factor * weighted_sum factor cs"
  by (simp add: weighted_sum_def sum.lessThan_Suc_shift sum_distrib_left mult_ac
        del: sum.lessThan_Suc)

lemma adversarial_loss_loop_weighted:
  "level_losses crit pyr gt = Inr cs \<Longrightarrow>
   adversarial_loss_loop (replicate (length pyr) crit) factor pyr gt loss sc
     = Inr (loss + sc * weighted_sum factor cs)"
proof (induction pyr arbitrary: gt cs loss sc)
  case Nil
  then show ?case by (simp add: weighted_sum_def)
next
  case (Cons p pyr)
  then show ?case
    by (auto split: sum.splits prod.splits simp: weighted_sum_Cons algebra_simps)
qed

lemma accumulate_factor_1:
  "accumulate 1 cs loss 1 = (if cs = [] then loss else Some (add_loss loss (sum_list cs)))"
proof (induction cs arbitrary: loss)
  case Nil
  then show ?case by simp
next
  case (Cons c cs)
  then show ?case by (cases loss) auto
qed

lemma compute_wavelets_loss_default:
  "level_losses crit pyr gt = Inr cs \<Longrightarrow> cs \<noteq> [] \<Longrightarrow>
   compute_wavelets_loss crit pyr gt 1 = Inr (Some (sum_list cs))"
  by (simp add: compute_wavelets_loss_def wavelets_loss_loop_accumulate accumulate_factor_1)

lemma compute_adversarial_loss_weighted:
  "level_losses crit pyr gt = Inr cs \<Longrightarrow>
   compute_adversarial_loss (replicate (length pyr) crit) pyr gt factor
     = Inr (weighted_sum factor cs)"
  by (simp add: compute_adversarial_loss_def adversarial_loss_loop_weighted)

lemma three_level_losses: "level_losses SmoothL1Loss three_levels zero_image = Inr [1, 1, 1]"
  by code_simp

lemma three_levels_code:
  "compute_wavelets_loss SmoothL1Loss three_levels zero_image (1 / 2) = Inr (Some (1 / 2))"
  by code_simp

lemma weighted_sum_example: "weighted_sum (1 / 2) [1, 1, 1] = 7 / 4"
  by (simp add: weighted_sum_Cons) (simp add: weighted_sum_def)

subsection \<open>The small pipeline\<close>

lemma demo_wloss:
  "compute_wavelets_loss SmoothL1Loss [demo_level] demo_clear 1 = Inr (Some 1)"
  by code_simp

lemma flat_wloss:
  "compute_wavelets_loss SmoothL1Loss [flat_level] demo_clear 1 = Inr (Some 1)"
  by code_simp

lemma demo_dwt_clear: "DWTHaar demo_clear = Inr (DWTHaar_out demo_clear)"
  by code_simp

lemma demo_dwt_noisy: "DWTHaar demo_noisy = Inr (DWTHaar_out demo_noisy)"
  by code_simp

lemma demo_px: "SmoothL1Loss demo_pred demo_clear = 1 / 2"
  by code_simp

lemma demo_deep: "compute_deep_iwt_loss SmoothL1Loss [demo_level] demo_clear = Inr (51 / 32)"
  by code_simp

lemma flat_deep: "compute_deep_iwt_loss SmoothL1Loss [flat_level] demo_clear = Inr (7 / 4)"
  by code_simp

lemma demo_batch:
  "train_batch demo 1 (Suc 0) (demo_noisy, demo_clear) 0
     = Inr (3 / 4, demo\<lparr>weights := Suc 0, calls := demo_calls\<rparr>)"
  by (simp add: train_batch_def demo_def demo_calls_def Let_def
        demo_wloss demo_dwt_clear demo_dwt_noisy demo_px)

lemma flat_batch:
  "train_batch (demo\<lparr>model := flat_model\<rparr>) 1 (Suc 0) (demo_noisy, demo_clear) 0
     = Inr (3 / 4, demo\<lparr>model := flat_model, weights := Suc 0, calls := demo_calls\<rparr>)"
  by (simp add: train_batch_def demo_def demo_calls_def Let_def flat_model_def
        flat_wloss demo_dwt_clear demo_dwt_noisy demo_px)

lemma train_batch_returns:
  assumes "compute_wavelets_loss (wavelets_criterion self)
             (snd (model self (weights self) noisy)) clear 1 = Inr (Some wloss)"
    and "\<not> images_visualizer self"
  shows "\<exists>avg' self'. train_batch self epoch n (noisy, clear) avg = Inr (avg', self')"
  using assms by (simp add: train_batch_def Let_def)

lemma train_batch_effect:
  assumes "train_batch self epoch n batch avg = Inr (avg', self')"
  shows "\<exists>wloss. batch_pyramid_loss self (weights self) batch = Inr (Some wloss)
       \<and> avg' = avg + batch_pixel_loss self (weights self) batch / real n
       \<and> self' = self\<lparr>weights := update self (weights self) (fst batch) (snd batch),
                       calls := calls self @
                         [ZeroGrad,
                          Backward (batch_pixel_loss self (weights self) batch + wloss * (2 / 10)),
                          ClipGradNorm 2, OptimizerStep,
                          Postfix epoch (epochs self)
                            (batch_pixel_loss self (weights self) batch) wloss]\<rparr>"
  using assms
  by (auto simp: train_batch_def Let_def pixel_loss_def batch_pixel_loss_def
        batch_pyramid_loss_def add_divide_distrib
        split: sum.splits option.splits if_splits)

lemma batch_losses_frame:
  "batch_pixel_loss (self\<lparr>weights := w, calls := cs\<rparr>) = batch_pixel_loss self"
  "batch_pyramid_loss (self\<lparr>weights := w, calls := cs\<rparr>) = batch_pyramid_loss self"
  by (simp_all add: fun_eq_iff batch_pixel_loss_def batch_pyramid_loss_def pixel_loss_def
        split: option.splits)

lemma train_loop_losses:
  "train_loop (self\<lparr>weights := w, calls := cs\<rparr>) epoch n bs avg = Inr (avg', self') \<Longrightarrow>
   \<exists>wls. map2 (batch_pyramid_loss self) (weights_before self w bs) bs
            = map (\<lambda>wl. Inr (Some wl)) wls
      \<and> avg' = avg + sum_list (map (\<lambda>p. p / real n)
                          (map2 (batch_pixel_loss self) (weights_before self w bs) bs))
      \<and> backpropagated (calls self')
          = backpropagated cs @
            map2 (\<lambda>p wl. p + wl * (2 / 10))
              (map2 (batch_pixel_loss self) (weights_before self w bs) bs) wls
      \<and> reported (calls self')
          = reported cs @ zip (map2 (batch_pixel_loss self) (weights_before self w bs) bs) wls"
proof (induction bs arbitrary: w cs avg)
  case Nil
  then show ?case by auto
next
  case (Cons b bs)
  let ?s = "self\<lparr>weights := w, calls := cs\<rparr>"
  from Cons.prems obtain a1 s1 where
    b: "train_batch ?s epoch n b avg = Inr (a1, s1)" and
    r: "train_loop s1 epoch n bs a1 = Inr (avg', self')"
    by (auto split: sum.splits)
  from train_batch_effect [OF b] obtain wloss where
    wl: "batch_pyramid_loss self w b = Inr (Some wloss)" and
    a1: "a1 = avg + batch_pixel_loss self w b / real n" and
    s1: "s1 = self\<lparr>weights := update self w (fst b) (snd b),
                    calls := cs @ [ZeroGrad,
                          Backward (batch_pixel_loss self w b + wloss * (2 / 10)),
                          ClipGradNorm 2, OptimizerStep,
                          Postfix epoch (epochs self) (batch_pixel_loss self w b) wloss]\<rparr>"
    by (auto simp: batch_losses_frame)
  from Cons.IH [OF r [unfolded s1]] obtain wls where
    ih: "map2 (batch_pyramid_loss self)
           (weights_before self (update self w (fst b) (snd b)) bs) bs
            = map (\<lambda>wl. Inr (Some wl)) wls"
      "avg' = a1 + sum_list (map (\<lambda>p. p / real n)
                (map2 (batch_pixel_loss self)
                   (weights_before self (update self w (fst b) (snd b)) bs) bs))"
      "backpropagated (calls self')
          = backpropagated (cs @ [ZeroGrad,
                          Backward (batch_pixel_loss self w b + wloss * (2 / 10)),
                          ClipGradNorm 2, OptimizerStep,
                          Postfix epoch (epochs self) (batch_pixel_loss self w b) wloss]) @
            map2 (\<lambda>p wl. p + wl * (2 / 10))
              (map2 (batch_pixel_loss self)
                 (weights_before self (update self w (fst b) (snd b)) bs) bs) wls"
      "reported (calls self')
          = reported (cs @ [ZeroGrad,
                          Backward (batch_pixel_loss self w b + wloss * (2 / 10)),
                          ClipGradNorm 2, OptimizerStep,
                          Postfix epoch (epochs self) (batch_pixel_loss self w b) wloss]) @
            zip (map2 (batch_pixel_loss self)
                   (weights_before self (update self w (fst b) (snd b)) bs) bs) wls"
    by blast
  have bp: "backpropagated (xs @ [ZeroGrad, Backward t, ClipGradNorm c, OptimizerStep,
                                     Postfix e m p q]) = backpropagated xs @ [t]"
    and rp: "reported (xs @ [ZeroGrad, Backward t, ClipGradNorm c, OptimizerStep,
                             Postfix e m p q]) = reported xs @ [(p, q)]" for xs t c e m p q
    by (simp_all add: backpropagated_def reported_def)
  show ?case
    by (rule exI [of _ "wloss # wls"]) (simp add: ih wl a1 bp rp)
qed

lemma demo_px0: "SmoothL1Loss demo_clear demo_clear = 0"
  by code_simp

lemma demo2_train_step:
  "train_step demo2 1 = Inr (5 / 8, demo2\<lparr>weights := Suc (Suc 0), calls := demo2_calls\<rparr>)"
  by (simp add: train_step_def train_batch_def demo2_def demo_def demo2_calls_def Let_def
        step_model_def demo_wloss demo_dwt_clear demo_dwt_noisy demo_px demo_px0)

lemma demo2_pixel_losses: "step_pixel_losses demo2 = [3 / 4, 1 / 2]"
  by (simp add: step_pixel_losses_def batch_pixel_loss_def pixel_loss_def demo2_def demo_def
        step_model_def demo_px demo_px0)

lemma fit_loop_step:
  "run_epoch self e = Inr t \<Longrightarrow>
   fit_loop self (e # rest) = (if stop_now t then Inr t else fit_loop t rest)"
  by (simp add: stop_now_def check_stop_criteria_def)

text \<open>
  What \<open>fit_loop\<close> returns on any list of epochs: the state after the first epochs of
  the list, up to and including the first one whose end state meets the stop condition,
  or after all of them.
\<close>

lemma fit_loop_stops:
  "fit_loop self es = Inr self' \<longleftrightarrow>
     (\<exists>k ss. k \<le> length es \<and> follows self (take k es) ss \<and> self' = last (self # ss)
        \<and> list_all (\<lambda>t. \<not> stop_now t) (butlast ss)
        \<and> (k < length es \<longrightarrow> 0 < k \<and> stop_now self'))"
proof (induction es arbitrary: self)
  case Nil
  show ?case
  proof
    assume "fit_loop self [] = Inr self'"
    then have "self' = self" by simp
    then show "\<exists>k ss. k \<le> length [] \<and> follows self (take k []) ss \<and> self' = last (self # ss)
        \<and> list_all (\<lambda>t. \<not> stop_now t) (butlast ss)
        \<and> (k < length [] \<longrightarrow> 0 < k \<and> stop_now self')"
      by (intro exI [of _ 0] exI [of _ "[]"]) simp
  next
    assume "\<exists>k ss. k \<le> length [] \<and> follows self (take k []) ss \<and> self' = last (self # ss)
        \<and> list_all (\<lambda>t. \<not> stop_now t) (butlast ss)
        \<and> (k < length [] \<longrightarrow> 0 < k \<and> stop_now self')"
    then obtain ss where "follows self [] ss" "self' = last (self # ss)" by auto
    then show "fit_loop self [] = Inr self'" by (cases ss) auto
  qed
next
  case (Cons e es)
  let ?R = "\<lambda>self es self'. \<exists>k ss. k \<le> length es \<and> follows self (take k es) ss
        \<and> self' = last (self # ss) \<and> list_all (\<lambda>t. \<not> stop_now t) (butlast ss)
        \<and> (k < length es \<longrightarrow> 0 < k \<and> stop_now self')"
  have shape: "\<exists>k' t ts. k = Suc k' \<and> ss = t # ts \<and> run_epoch self e = Inr t
                 \<and> follows t (take k' es) ts"
    if "follows self (take k (e # es)) ss" "k < length (e # es) \<longrightarrow> 0 < k \<and> P"
       "k \<le> length (e # es)" for k ss P
  proof (cases k)
    case 0
    with that show ?thesis by simp
  next
    case (Suc k')
    with that(1) show ?thesis by (cases ss) auto
  qed
  show ?case
  proof (cases "run_epoch self e")
    case (Inl err)
    then have "fit_loop self (e # es) \<noteq> Inr self'" by simp
    moreover have "\<not> ?R self (e # es) self'"
      using shape Inl by fastforce
    ultimately show ?thesis by blast
  next
    case (Inr t)
    show ?thesis
    proof (cases "stop_now t")
      case True
      have l: "fit_loop self (e # es) = Inr self' \<longleftrightarrow> self' = t"
        using fit_loop_step [OF Inr] True by auto
      have "?R self (e # es) t"
        by (intro exI [of _ "Suc 0"] exI [of _ "[t]"]) (simp add: Inr True)
      moreover have "self' = t" if "?R self (e # es) self'"
      proof -
        from that obtain k ss where r: "k \<le> length (e # es)"
          "follows self (take k (e # es)) ss"
          "self' = last (self # ss)" "list_all (\<lambda>t. \<not> stop_now t) (butlast ss)"
          "k < length (e # es) \<longrightarrow> 0 < k \<and> stop_now self'" by blast
        from shape [OF r(2) r(5) r(1)] Inr obtain k' ts where
          s: "k = Suc k'" "ss = t # ts" "follows t (take k' es) ts" by auto
        from r(4) s(2) True have "ts = []" by (cases ts) auto
        with r(3) s(2) show ?thesis by simp
      qed
      ultimately show ?thesis using l by blast
    next
      case False
      have l: "fit_loop self (e # es) = Inr self' \<longleftrightarrow> fit_loop t es = Inr self'"
        using fit_loop_step [OF Inr] False by auto
      have "?R self (e # es) self'" if "?R t es self'"
      proof -
        from that obtain k ss where r: "k \<le> length es" "follows t (take k es) ss"
          "self' = last (t # ss)" "list_all (\<lambda>t. \<not> stop_now t) (butlast ss)"
          "k < length es \<longrightarrow> 0 < k \<and> stop_now self'" by blast
        show ?thesis
          using r False Inr
          by (intro exI [of _ "Suc k"] exI [of _ "t # ss"]) auto
      qed
      moreover have "?R t es self'" if "?R self (e # es) self'"
      proof -
        from that obtain k ss where r: "k \<le> length (e # es)"
          "follows self (take k (e # es)) ss"
          "self' = last (self # ss)" "list_all (\<lambda>t. \<not> stop_now t) (butlast ss)"
          "k < length (e # es) \<longrightarrow> 0 < k \<and> stop_now self'" by blast
        from shape [OF r(2) r(5) r(1)] Inr obtain k' ts where
          s: "k = Suc k'" "ss = t # ts" "follows t (take k' es) ts" by auto
        have a: "list_all (\<lambda>t. \<not> stop_now t) (butlast ts)"
          using r(4) s(2) by (cases ts) auto
        have b: "k' < length es \<longrightarrow> 0 < k' \<and> stop_now self'"
        proof
          assume lt: "k' < length es"
          with r(5) s(1) have st: "stop_now self'" by simp
          have "k' \<noteq> 0"
          proof
            assume "k' = 0"
            with s(3) have "ts = []" by (cases ts) auto
            with r(3) s(2) st False show False by simp
          qed
          with st show "0 < k' \<and> stop_now self'" by simp
        qed
        show ?thesis
          using r(1,3) s a b
          by (intro exI [of _ k'] exI [of _ ts]) auto
      qed
      ultimately show ?thesis using l Cons.IH [of t] by blast
    qed
  qed
qed

lemma demo_after_0: "demo_after 0 = demo"
  by (simp add: demo_after_def demo_def)

lemma demo_run_epoch:
  "k < 4 \<Longrightarrow> run_epoch (demo_after k) (int (Suc k)) = Inr (demo_after (Suc k))"
  by (simp add: run_epoch_def train_step_def train_batch_def validation_step_def
        scheduler_step_def save_best_checkpoint_def demo_after_def demo_def Let_def
        demo_wloss demo_dwt_clear demo_dwt_noisy demo_px)


lemma demo_stop:
  "\<not> stop_now (demo_after 1)" "\<not> stop_now (demo_after 2)" "\<not> stop_now (demo_after 3)"
  "stop_now (demo_after 4)"
  by (simp_all add: stop_now_def demo_after_def demo_def)

lemma demo_fit: "fit_loop demo [1, 2, 3, 4, 5] = Inr (demo_after 4)"
proof -
  have e1: "run_epoch (demo_after 0) 1 = Inr (demo_after 1)"
    using demo_run_epoch [of 0] by simp
  have e2: "run_epoch (demo_after 1) 2 = Inr (demo_after 2)"
    using demo_run_epoch [of 1] by (simp add: eval_nat_numeral)
  have e3: "run_epoch (demo_after 2) 3 = Inr (demo_after 3)"
    using demo_run_epoch [of 2] by (simp add: eval_nat_numeral)
  have e4: "run_epoch (demo_after 3) 4 = Inr (demo_after 4)"
    using demo_run_epoch [of 3] by (simp add: eval_nat_numeral)
  show ?thesis
    unfolding demo_after_0 [symmetric]
    by (simp only: fit_loop_step [OF e1] fit_loop_step [OF e2] fit_loop_step [OF e3]
          fit_loop_step [OF e4] demo_stop) simp
qed

lemma upto_1_5: "[1..5] = [1, 2, 3, 4, 5 :: int]"
  by code_simp

lemma demo_fit_run: "fit demo = Inr (demo_after 4)"
proof -
  have "[resume_epoch demo..epochs demo] = [1, 2, 3, 4, 5]"
    by (simp add: demo_def upto_1_5)
  then show ?thesis unfolding fit_def by (simp only: demo_fit)
qed

section \<open>The pyramid loss on an empty pyramid\<close>

text \<open>
  C8 (as the spec states it): called with an empty pyramid, the pyramid loss fails with
  an \<open>EmptyPyramidError\<close> instead of returning a value. The code has no such check: the
  loop body never runs and \<^verbatim>\<open>_loss\<close> is returned as it was initialised, \<^verbatim>\<open>None\<close>.
  The counterexample is the call on an empty pyramid and a 2x2 image.
\<close>

theorem empty_pyramid_counterexample:
  "compute_wavelets_loss SmoothL1Loss [] (const_tensor 1 3 2 2 0) 1 = Inr None"
  by (simp add: compute_wavelets_loss_def)

text \<open>
  C8 (amended): called with an empty pyramid, \<^verbatim>\<open>_compute_wavelets_loss\<close> raises nothing
  and returns \<^verbatim>\<open>None\<close>, whatever the criterion, the ground truth and the factor.
\<close>

theorem empty_pyramid_returns_None:
  "compute_wavelets_loss crit [] gt_image factor = Inr None"
  by (simp add: compute_wavelets_loss_def)

section \<open>Checkpoints\<close>


section \<open>Validation on an empty dataset\<close>

text \<open>
  C9: with a validation dataset of zero samples, \<^verbatim>\<open>_validation_step\<close> returns the
  average loss 0 and the average accuracy 0 and raises no \<open>ZeroDivisionError\<close> (the
  divisions are behind \<^verbatim>\<open>test_len > 0\<close>), and the scheduler, when there is one, is
  stepped all the same: its \<^verbatim>\<open>last_epoch\<close> advances by one.
\<close>

theorem validation_empty_dataset:
  "validation_step (self\<lparr>val_dataset := Some []\<rparr>)
     = Inr ((0, 0), scheduler_step (self\<lparr>val_dataset := Some []\<rparr>))
   \<and> scheduler (scheduler_step (self\<lparr>val_dataset := Some []\<rparr>))
       = map_option (\<lambda>sch. sch\<lparr>last_epoch := last_epoch sch + 1\<rparr>) (scheduler self)"
  by (simp add: validation_step_def scheduler_step_def Let_def split: option.splits)

section \<open>The loss of a training batch\<close>

text \<open>
  C5: for every training batch that the step gets through, the loss handed to
  \<^verbatim>\<open>backward()\<close> is \<open>pixel_loss + 0.2 * wloss\<close>, where \<open>wloss\<close> is the pyramid loss of the
  batch and \<open>pixel_loss\<close> is the image criterion, blended 50/50 with the perceptual loss
  when one is configured; the gradient norm is clipped to 2.0 after \<^verbatim>\<open>backward()\<close> and
  before the optimiser step.
\<close>

theorem train_batch_loss:
  assumes "train_batch self epoch n (noisy, clear) avg = Inr (avg', self')"
  shows "\<exists>wloss.
           compute_wavelets_loss (wavelets_criterion self)
             (snd (model self (weights self) noisy)) clear 1 = Inr (Some wloss)
         \<and> calls self' = calls self @
             [ZeroGrad,
              Backward (pixel_loss self (fst (model self (weights self) noisy)) clear
                        + 2 / 10 * wloss),
              ClipGradNorm 2, OptimizerStep,
              Postfix epoch (epochs self)
                (pixel_loss self (fst (model self (weights self) noisy)) clear) wloss]"
  using assms
  by (auto simp: train_batch_def Let_def pixel_loss_def add_divide_distrib
           split: sum.splits option.splits if_splits)

theorem train_batch_loss_witness:
  "train_batch demo 1 (Suc 0) (demo_noisy, demo_clear) 0
     = Inr (3 / 4, demo\<lparr>weights := Suc 0, calls := demo_calls\<rparr>)
   \<and> (\<exists>wloss.
           compute_wavelets_loss (wavelets_criterion demo)
             (snd (model demo (weights demo) demo_noisy)) demo_clear 1 = Inr (Some wloss)
         \<and> calls (demo\<lparr>weights := Suc 0, calls := demo_calls\<rparr>) = calls demo @
             [ZeroGrad,
              Backward (pixel_loss demo (fst (model demo (weights demo) demo_noisy)) demo_clear
                        + 2 / 10 * wloss),
              ClipGradNorm 2, OptimizerStep,
              Postfix 1 (epochs demo)
                (pixel_loss demo (fst (model demo (weights demo) demo_noisy)) demo_clear) wloss])"
proof (rule conjI)
  show h: "train_batch demo 1 (Suc 0) (demo_noisy, demo_clear) 0
     = Inr (3 / 4, demo\<lparr>weights := Suc 0, calls := demo_calls\<rparr>)"
    by (rule demo_batch)
  from train_batch_loss [OF h] show "\<exists>wloss.
           compute_wavelets_loss (wavelets_criterion demo)
             (snd (model demo (weights demo) demo_noisy)) demo_clear 1 = Inr (Some wloss)
         \<and> calls (demo\<lparr>weights := Suc 0, calls := demo_calls\<rparr>) = calls demo @
             [ZeroGrad,
              Backward (pixel_loss demo (fst (model demo (weights demo) demo_noisy)) demo_clear
                        + 2 / 10 * wloss),
              ClipGradNorm 2, OptimizerStep,
              Postfix 1 (epochs demo)
                (pixel_loss demo (fst (model demo (weights demo) demo_noisy)) demo_clear) wloss]" .
qed

text \<open>
  C2 (as the spec states it): the loss that is backpropagated for a batch includes both
  the wavelet pyramid loss and the deep inverse reconstruction loss. The train step
  never calls \<^verbatim>\<open>_compute_deep_iwt_loss\<close>. On the small pipeline the deep inverse loss of
  the predicted pyramid is 51/32, and 7/4 for the network \<open>flat_model\<close> whose pyramid
  differs in the approximation band only; in both cases the batch backpropagates
  19/20, which is the pixel loss 3/4 plus 0.2 times the pyramid loss 1.
\<close>

theorem deep_iwt_loss_not_included_counterexample:
  "compute_deep_iwt_loss (images_criterion demo)
       (snd (model demo (weights demo) demo_noisy)) demo_clear = Inr (51 / 32)
   \<and> compute_deep_iwt_loss (images_criterion demo)
       (snd (flat_model (weights demo) demo_noisy)) demo_clear = Inr (7 / 4)
   \<and> outcome (train_batch demo 1 (Suc 0) (demo_noisy, demo_clear) 0)
       = Inr (3 / 4,
              [ZeroGrad, Backward (19 / 20), ClipGradNorm 2, OptimizerStep,
               Postfix 1 5 (3 / 4) 1],
              Suc 0)
   \<and> outcome (train_batch (demo\<lparr>model := flat_model\<rparr>) 1 (Suc 0) (demo_noisy, demo_clear) 0)
       = Inr (3 / 4,
              [ZeroGrad, Backward (19 / 20), ClipGradNorm 2, OptimizerStep,
               Postfix 1 5 (3 / 4) 1],
              Suc 0)"
proof -
  have "images_criterion demo = SmoothL1Loss" "model demo (weights demo) demo_noisy = (demo_pred, [demo_level])"
    by (simp_all add: demo_def)
  then show ?thesis
    by (simp add: demo_deep flat_deep flat_model_def demo_batch flat_batch outcome_def
          demo_calls_def)
qed

text \<open>
  C2 (amended): for every training batch that the step gets through, the loss that is
  backpropagated and stepped includes the wavelet pyramid loss and not the deep inverse
  reconstruction loss: it is the pixel loss plus 0.2 times the pyramid loss. The
  per-batch control flow is \<^verbatim>\<open>zero_grad\<close>, model forward, pixel loss and pyramid loss,
  \<^verbatim>\<open>backward\<close>, gradient clipping, optimiser step. The statement gives the whole result
  of the batch in the model: these calls and the line on the progress bar, the
  parameters as the optimiser leaves them, and the running average grown by the pixel
  loss over the number of batches.
\<close>

theorem train_batch_backpropagates:
  assumes "train_batch self epoch n (noisy, clear) avg = Inr (avg', self')"
  shows "\<exists>wloss.
           compute_wavelets_loss (wavelets_criterion self)
             (snd (model self (weights self) noisy)) clear 1 = Inr (Some wloss)
         \<and> avg' = avg + pixel_loss self (fst (model self (weights self) noisy)) clear / real n
         \<and> self' = self\<lparr>weights := update self (weights self) noisy clear,
                         calls := calls self @
                           [ZeroGrad,
                            Backward (pixel_loss self (fst (model self (weights self) noisy)) clear
                                      + wloss * (2 / 10)),
                            ClipGradNorm 2, OptimizerStep,
                            Postfix epoch (epochs self)
                              (pixel_loss self (fst (model self (weights self) noisy)) clear)
                              wloss]\<rparr>"
  using train_batch_effect [OF assms]
  by (simp add: batch_pixel_loss_def batch_pyramid_loss_def)

theorem train_batch_backpropagates_witness:
  "train_batch demo 1 (Suc 0) (demo_noisy, demo_clear) 0
     = Inr (3 / 4, demo\<lparr>weights := Suc 0, calls := demo_calls\<rparr>)
   \<and> (\<exists>wloss.
           compute_wavelets_loss (wavelets_criterion demo)
             (snd (model demo (weights demo) demo_noisy)) demo_clear 1 = Inr (Some wloss)
         \<and> 3 / 4 = 0 + pixel_loss demo (fst (model demo (weights demo) demo_noisy)) demo_clear
                       / real (Suc 0)
         \<and> demo\<lparr>weights := Suc 0, calls := demo_calls\<rparr>
             = demo\<lparr>weights := update demo (weights demo) demo_noisy demo_clear,
                    calls := calls demo @
                      [ZeroGrad,
                       Backward (pixel_loss demo (fst (model demo (weights demo) demo_noisy))
                                   demo_clear
                                 + wloss * (2 / 10)),
                       ClipGradNorm 2, OptimizerStep,
                       Postfix 1 (epochs demo)
                         (pixel_loss demo (fst (model demo (weights demo) demo_noisy))
                            demo_clear)
                         wloss]\<rparr>)"
proof (rule conjI)
  show h: "train_batch demo 1 (Suc 0) (demo_noisy, demo_clear) 0
     = Inr (3 / 4, demo\<lparr>weights := Suc 0, calls := demo_calls\<rparr>)"
    by (rule demo_batch)
  from train_batch_backpropagates [OF h]
  show "\<exists>wloss.
           compute_wavelets_loss (wavelets_criterion demo)
             (snd (model demo (weights demo) demo_noisy)) demo_clear 1 = Inr (Some wloss)
         \<and> 3 / 4 = 0 + pixel_loss demo (fst (model demo (weights demo) demo_noisy)) demo_clear
                       / real (Suc 0)
         \<and> demo\<lparr>weights := Suc 0, calls := demo_calls\<rparr>
             = demo\<lparr>weights := update demo (weights demo) demo_noisy demo_clear,
                    calls := calls demo @
                      [ZeroGrad,
                       Backward (pixel_loss demo (fst (model demo (weights demo) demo_noisy))
                                   demo_clear
                                 + wloss * (2 / 10)),
                       ClipGradNorm 2, OptimizerStep,
                       Postfix 1 (epochs demo)
                         (pixel_loss demo (fst (model demo (weights demo) demo_noisy))
                            demo_clear)
                         wloss]\<rparr>" .
qed

text \<open>
  C10: the average that \<^verbatim>\<open>_train_step\<close> returns is the sum over the batches of the
  batch's pixel loss (the image criterion, blended 50/50 with the perceptual loss when
  one is configured, on what the network predicts with the parameters the batch starts
  from) divided by the number of batches. The pyramid loss of the batch enters the loss
  handed to \<^verbatim>\<open>backward()\<close>, pixel loss plus 0.2 times pyramid loss, and not the average.
\<close>

theorem train_step_average:
  assumes "train_step self epoch = Inr (avg, self')"
  shows "\<exists>wls. step_pyramid_losses self = map (\<lambda>wl. Inr (Some wl)) wls
      \<and> avg = sum_list (map (\<lambda>p. p / real (length (train_dataloader self)))
                 (step_pixel_losses self))
      \<and> backpropagated (calls self')
          = backpropagated (calls self) @
            map2 (\<lambda>p wl. p + wl * (2 / 10)) (step_pixel_losses self) wls
      \<and> reported (calls self') = reported (calls self) @ zip (step_pixel_losses self) wls"
proof -
  have "self\<lparr>weights := weights self, calls := calls self\<rparr> = self" by simp
  with assms have "train_loop (self\<lparr>weights := weights self, calls := calls self\<rparr>) epoch
      (length (train_dataloader self)) (train_dataloader self) 0 = Inr (avg, self')"
    by (simp add: train_step_def)
  from train_loop_losses [OF this] show ?thesis
    by (simp add: step_pixel_losses_def step_pyramid_losses_def)
qed


theorem train_step_average_witness:
  "train_step demo2 1 = Inr (5 / 8, demo2\<lparr>weights := Suc (Suc 0), calls := demo2_calls\<rparr>)
   \<and> step_pixel_losses demo2 = [3 / 4, 1 / 2]
   \<and> (\<exists>wls. step_pyramid_losses demo2 = map (\<lambda>wl. Inr (Some wl)) wls
      \<and> 5 / 8 = sum_list (map (\<lambda>p. p / real (length (train_dataloader demo2)))
                 (step_pixel_losses demo2))
      \<and> backpropagated (calls (demo2\<lparr>weights := Suc (Suc 0), calls := demo2_calls\<rparr>))
          = backpropagated (calls demo2) @
            map2 (\<lambda>p wl. p + wl * (2 / 10)) (step_pixel_losses demo2) wls
      \<and> reported (calls (demo2\<lparr>weights := Suc (Suc 0), calls := demo2_calls\<rparr>))
          = reported (calls demo2) @ zip (step_pixel_losses demo2) wls)"
proof (intro conjI)
  show h: "train_step demo2 1
             = Inr (5 / 8, demo2\<lparr>weights := Suc (Suc 0), calls := demo2_calls\<rparr>)"
    by (rule demo2_train_step)
  show "step_pixel_losses demo2 = [3 / 4, 1 / 2]" by (rule demo2_pixel_losses)
  from train_step_average [OF h]
  show "\<exists>wls. step_pyramid_losses demo2 = map (\<lambda>wl. Inr (Some wl)) wls
      \<and> 5 / 8 = sum_list (map (\<lambda>p. p / real (length (train_dataloader demo2)))
                 (step_pixel_losses demo2))
      \<and> backpropagated (calls (demo2\<lparr>weights := Suc (Suc 0), calls := demo2_calls\<rparr>))
          = backpropagated (calls demo2) @
            map2 (\<lambda>p wl. p + wl * (2 / 10)) (step_pixel_losses demo2) wls
      \<and> reported (calls (demo2\<lparr>weights := Suc (Suc 0), calls := demo2_calls\<rparr>))
          = reported (calls demo2) @ zip (step_pixel_losses demo2) wls" .
qed

section \<open>The stop criterion\<close>

text \<open>
  C4: \<^verbatim>\<open>fit\<close> runs the epochs \<^verbatim>\<open>range(self.resume_epoch, self.epochs + 1)\<close> in order and
  returns (with no exception) the state \<open>self'\<close> exactly when some first \<open>k\<close> of them
  complete one after the other and end in \<open>self'\<close>, the stop condition (a scheduler is
  active and \<open>lr - stop_criteria < -1e-9\<close>, read after validation and checkpointing)
  holds at the end of none of them but possibly the last, and either all epochs up to
  \<^verbatim>\<open>self.epochs\<close> were run or the stop condition holds at the end of the last one run.
  So training ends early exactly at the first epoch whose end state meets the stop
  condition, and otherwise runs to the configured last epoch.
\<close>

theorem fit_stops:
  "fit self = Inr self' \<longleftrightarrow>
     (\<exists>k ss. k \<le> length [resume_epoch self..epochs self]
        \<and> follows self (take k [resume_epoch self..epochs self]) ss
        \<and> self' = last (self # ss)
        \<and> list_all (\<lambda>t. \<not> stop_now t) (butlast ss)
        \<and> (k < length [resume_epoch self..epochs self] \<longrightarrow> 0 < k \<and> stop_now self'))"
  unfolding fit_def by (rule fit_loop_stops)

theorem fit_stops_witness:
  "fit demo = Inr (demo_after 4)
   \<and> (\<exists>k ss. k \<le> length [resume_epoch demo..epochs demo]
        \<and> follows demo (take k [resume_epoch demo..epochs demo]) ss
        \<and> demo_after 4 = last (demo # ss)
        \<and> list_all (\<lambda>t. \<not> stop_now t) (butlast ss)
        \<and> (k < length [resume_epoch demo..epochs demo] \<longrightarrow> 0 < k \<and> stop_now (demo_after 4)))"
proof (rule conjI)
  show h: "fit demo = Inr (demo_after 4)"
    by (rule demo_fit_run)
  from fit_stops [THEN iffD1, OF h]
  show "\<exists>k ss. k \<le> length [resume_epoch demo..epochs demo]
        \<and> follows demo (take k [resume_epoch demo..epochs demo]) ss
        \<and> demo_after 4 = last (demo # ss)
        \<and> list_all (\<lambda>t. \<not> stop_now t) (butlast ss)
        \<and> (k < length [resume_epoch demo..epochs demo] \<longrightarrow> 0 < k \<and> stop_now (demo_after 4))" .
qed

section \<open>The pyramid loss and the decay factor\<close>

text \<open>
  C1: the spec has the pyramid loss equal to the sum over the levels of the per-level
  loss times \<open>factor ^ i\<close>, so 1.75 for the factor 0.5 and the per-level losses 1, 1, 1.
  Line 282 multiplies the whole running sum by the scale, not the new term: on three
  levels with per-level losses 1, 1, 1 and the factor 0.5 the function returns 0.5,
  where the weighted sum is 1.75. The sibling \<^verbatim>\<open>_compute_adversarial_loss\<close>, which scales the
  new term only, returns 1.75 on the same input.
\<close>

theorem pyramid_loss_scales_running_sum:
  "level_losses SmoothL1Loss three_levels zero_image = Inr [1, 1, 1]
   \<and> weighted_sum (1 / 2) [1, 1, 1] = 7 / 4
   \<and> compute_wavelets_loss SmoothL1Loss three_levels zero_image (1 / 2) = Inr (Some (1 / 2))
   \<and> compute_adversarial_loss (replicate 3 SmoothL1Loss) three_levels zero_image (1 / 2)
       = Inr (7 / 4)"
proof -
  have "length three_levels = 3" by (simp add: three_levels_def)
  with compute_adversarial_loss_weighted [OF three_level_losses, of "1 / 2"]
  have "compute_adversarial_loss (replicate 3 SmoothL1Loss) three_levels zero_image (1 / 2)
       = Inr (7 / 4)"
    by (simp only: weighted_sum_example)
  with three_level_losses weighted_sum_example three_levels_code show ?thesis
    by (intro conjI)
qed

section \<open>The Haar round trip\<close>

text \<open>
  C6: for every image tensor of even height and width, the inverse transform applied to
  the four sub-bands of the forward transform gives the image back. In exact arithmetic
  the difference is zero, hence below any tolerance.
\<close>

theorem haar_round_trip:
  assumes x: "is_tensor b c h w x" and eh: "even h" and ew: "even w"
  shows "round_trip x = Inr x"
proof (cases "b = 0")
  case True
  with x have "x = []" by (simp add: is_tensor_def)
  then show ?thesis
    by (simp add: round_trip_def DWTHaar_def HaarForward_def well_shaped_def is_tensor_def
          size1_def size2_def size3_def IWTHaar_def torch_cat_def same_outer_def HaarInverse_def)
next
  case False
  let ?y = "map haar_sample x"
  have y: "is_tensor b (4 * c) (h div 2) (w div 2) ?y" by (rule haar_sample_tensor [OF x])
  have bands: "is_tensor b c (h div 2) (w div 2) (map (map haar_ll) x)"
    "is_tensor b c (h div 2) (w div 2) (map (map haar_lh) x)"
    "is_tensor b c (h div 2) (w div 2) (map (map haar_hl) x)"
    "is_tensor b c (h div 2) (w div 2) (map (map haar_hh) x)"
    using x
    by (auto simp: is_tensor_def list_all_iff haar_ll_def haar_lh_def haar_hl_def
          haar_hh_def haar_band_plane)
  have cat: "torch_cat [map (map haar_ll) x, map (map haar_lh) x, map (map haar_hl) x,
                        map (map haar_hh) x] = Inr ?y"
    using bands
    by (simp add: torch_cat_def is_tensor_same_outer cat_channels_4 del: cat_channels.simps)
       (simp add: haar_sample_def)
  have st: "size1 ?y div 4 = c" using is_tensor_sizes(1) [OF y] False by simp
  have inv: "HaarInverse ?y = Inr x"
  proof -
    have "map (\<lambda>s. map (\<lambda>k. haar_unband (s ! k) (s ! (c + k)) (s ! (2 * c + k))
                               (s ! (3 * c + k))) [0..<c]) ?y = x"
    proof -
      have "\<And>s. s \<in> set x \<Longrightarrow>
          map (\<lambda>k. haar_unband (haar_sample s ! k) (haar_sample s ! (c + k))
                 (haar_sample s ! (2 * c + k)) (haar_sample s ! (3 * c + k))) [0..<c] = s"
      proof -
        fix s assume s: "s \<in> set x"
        then have l: "length s = c" and pl: "list_all (is_plane h w) s"
          using x by (auto simp: is_tensor_def list_all_iff)
        show "map (\<lambda>k. haar_unband (haar_sample s ! k) (haar_sample s ! (c + k))
                 (haar_sample s ! (2 * c + k)) (haar_sample s ! (3 * c + k))) [0..<c] = s"
          using haar_unband_sample [OF pl eh ew] by (simp add: l)
      qed
      then show ?thesis by (simp add: map_idI)
    qed
    then show ?thesis
      using is_tensor_well_shaped [OF y] by (simp add: HaarInverse_def st Let_def)
  qed
  show ?thesis
    by (simp add: round_trip_def DWTHaar_tensor [OF x eh ew] IWTHaar_def cat inv
          del: cat_channels.simps)
qed


theorem haar_round_trip_witness:
  "is_tensor 1 3 2 2 demo_image \<and> even (2 :: nat) \<and> round_trip demo_image = Inr demo_image"
proof -
  have t: "is_tensor 1 3 2 2 demo_image"
    by (simp add: demo_image_def is_tensor_def is_plane_def)
  have e: "even (2 :: nat)" by simp
  from haar_round_trip [OF t e e] have "round_trip demo_image = Inr demo_image" .
  with t e show ?thesis by (intro conjI)
qed

section \<open>The deep inverse reconstruction of a constant pyramid\<close>

text \<open>
  What \<^verbatim>\<open>_compute_deep_iwt_loss\<close> composes from a pyramid with zero detail bands and a
  constant deepest approximation band depends on the gain of \<^verbatim>\<open>HaarInverse\<close> on a
  constant band: each level multiplies the value by that gain and by the factor 2 of
  line 295. For the transform pair modelled above the gain is 1/2 (the spec's section
  4.3: the inverse alone would halve the magnitude), so the value \<open>v\<close> is kept; an
  inverse of gain 1 would give \<open>v * 2 ^ L\<close>, the value of the spec's section 8. The
  source does not contain \<^verbatim>\<open>HaarInverse\<close>, so the lemma below is a fact about the modelled
  pair only.
\<close>

lemma deep_iwt_constant:
  assumes "0 < b" "pyr \<noteq> []" "zero_detail_levels b h w (rev pyr)"
    "map (take 3) (last pyr) = const_tensor b 3 h w v"
  shows "deep_iwt_compose pyr
           = Inr (const_tensor b 3 (h * 2 ^ length pyr) (w * 2 ^ length pyr) v)"
proof -
  from assms(2) obtain deepest rest where r: "rev pyr = deepest # rest"
    by (cases "rev pyr") auto
  then have "rev (rev pyr) = rev (deepest # rest)" by (simp only:)
  then have "last pyr = deepest" by simp
  with deep_iwt_loop_const [OF assms(1,3), of v] assms(4) r show ?thesis
    by (simp add: deep_iwt_compose_def)
qed

lemma deep_iwt_two_levels:
  "deep_iwt_compose two_levels = Inr (const_tensor 1 3 4 4 3)"
  by code_simp

end
